theory Spec2Isabelle
  imports Main
begin

section \<open>The Morphlink autopilot: a supervisor that starts and stops the redirector microservice\<close>

text \<open>
  The model follows \<^verbatim>\<open>autopilot.js\<close> (class \<^verbatim>\<open>AutopilotSystem\<close>) and the two
  monolith endpoints it talks to (\<^verbatim>\<open>/api/health\<close> and
  \<^verbatim>\<open>/api/internal/set-redirector-status\<close>).

  The object's fields, the monolith's module variable \<^verbatim>\<open>redirectorStatus\<close> and the
  observable effects (console output, HTTP requests, spawned processes, signals, timers)
  are one record that every method takes and returns. What the outside world answers
  (does the health query succeed, does the child process come up, does the POST succeed,
  does \<^verbatim>\<open>kill\<close> throw, does the worker die while the supervisor sleeps) is a parameter
  of the call. An \<^verbatim>\<open>async\<close> method is run to completion: the events that can happen at
  its \<^verbatim>\<open>await\<close> points are those parameters. So a call of \<^verbatim>\<open>checkLoadAndScale\<close> in
  the model is a tick that runs alone, with no other tick, timer callback or call of
  \<^verbatim>\<open>stop\<close> between its first and its last statement. The source does not enforce this:
  \<^verbatim>\<open>start\<close> and the interval callback call \<^verbatim>\<open>checkLoadAndScale\<close> without awaiting it,
  and a scale-up can take longer than the 10 s interval. Every property below that speaks
  of a tick is a property of a tick that runs alone.

  The load is the monolith's request counter, an integer. A health query that fails
  covers a network error, a timeout and a body without the \<^verbatim>\<open>redirector\<close> field: all
  three end in the same \<^verbatim>\<open>catch\<close>. A status POST that fails did not reach the
  monolith's handler, so the monolith's variable keeps its value.
\<close>

subsection \<open>Data\<close>

type_synonym pid = nat
type_synonym timer = nat

datatype signal = SIGTERM | SIGKILL

text \<open>The monolith's \<^verbatim>\<open>redirectorStatus\<close> and the status string of its health report.\<close>

datatype status = active | inactive
datatype reported = integrated | separated

text \<open>What a rejected promise or a thrown exception carries.\<close>

datatype error =
    RequestFailed
  | SpawnFailed
  | FailedToStart
  | KillFailed
  | NullHandle

text \<open>The lines written with \<^verbatim>\<open>console.log\<close> and \<^verbatim>\<open>console.error\<close>, one constructor each.\<close>

datatype msg =
    Initialized
  | LoadThresholdIs int
  | PollIntervalIs nat
  | AlreadyRunning
  | StartingMonitoring
  | StoppingMonitoring
  | CurrentLoad int reported
  | HealthCheckFailed nat nat
  | TooManyErrors
  | HighLoadDetected int
  | ScalingUp
  | ScaleUpCompleted
  | ScaleUpFailed error
  | LowLoadDetected int
  | ScalingDown
  | ScaleDownCompleted
  | ScaleDownFailed error
  | LoadWithinRange int bool
  | Spawning
  | MicroserviceExited
  | FailedToStartMicroservice error
  | ProcessStarted
  | NoProcessToStop
  | Terminating
  | ForceKilling
  | ErrorStopping error
  | MicroserviceStopped
  | SettingStatus status
  | StatusUpdated status
  | FailedToSetStatus error

datatype event =
    Log msg
  | HttpGetHealth
  | HttpPostStatus status
  | SpawnProcess pid
  | KillSignal pid signal
  | SetTimeout nat
  | SetInterval timer nat
  | ClearInterval timer

text \<open>
  The first five fields are those of \<^verbatim>\<open>AutopilotSystem\<close>. \<open>redirectorStatus\<close> is the
  monolith's variable, \<open>forceKillPending\<close> counts the 5000 ms timers that
  \<^verbatim>\<open>stopMicroservice\<close> has set and that have not fired yet, \<open>nextPid\<close> and
  \<open>nextTimer\<close> name the next child process and the next interval, and \<open>trace\<close> lists
  the effects in the order they happened.
\<close>

record system =
  microserviceProcess :: "pid option"
  isMonitoring :: bool
  pollInterval :: "timer option"
  consecutiveErrors :: nat
  maxConsecutiveErrors :: nat
  redirectorStatus :: status
  forceKillPending :: nat
  nextPid :: pid
  nextTimer :: timer
  trace :: "event list"

text \<open>A call either returns or throws; the effects it had until then are kept in both cases.\<close>

datatype outcome = Returned system | Threw error system

definition andThen :: "outcome \<Rightarrow> (system \<Rightarrow> outcome) \<Rightarrow> outcome" where
  "andThen r f = (case r of Returned w \<Rightarrow> f w | Threw e w \<Rightarrow> Threw e w)"

subsection \<open>What the outside world answers\<close>

datatype get_result = GetFailed | GetOk int
datatype spawn_result = ErrorEvent | ExitsEarly | StaysUp
datatype post_result = PostFailed | PostOk
datatype kill_result = KillThrows | KillOk

record env =
  healthGet :: get_result
  spawned :: spawn_result
  workerExits :: bool
  statusPost :: post_result
  killed :: kill_result

subsection \<open>Configuration\<close>

definition LOAD_THRESHOLD :: int where
  "LOAD_THRESHOLD = 20"

definition POLL_INTERVAL :: nat where
  "POLL_INTERVAL = 10000"

subsection \<open>Effects\<close>

definition emit :: "event \<Rightarrow> system \<Rightarrow> system" where
  "emit e w = w\<lparr>trace := trace w @ [e]\<rparr>"

definition log :: "msg \<Rightarrow> system \<Rightarrow> system" where
  "log m w = emit (Log m) w"

text \<open>The events a call added to the trace.\<close>

definition newEvents :: "system \<Rightarrow> system \<Rightarrow> event list" where
  "newEvents w w' = drop (length (trace w)) (trace w')"

subsection \<open>The monolith's two endpoints\<close>

text \<open>
  \<^verbatim>\<open>POST /api/internal/set-redirector-status\<close>: the body's status is one of the two
  strings the handler accepts, since the autopilot sends no other.
\<close>

definition set_redirector_status :: "status \<Rightarrow> system \<Rightarrow> system" where
  "set_redirector_status st w = w\<lparr>redirectorStatus := st\<rparr>"

text \<open>\<^verbatim>\<open>GET /api/health\<close>: the status string of the report.\<close>

definition health_status :: "system \<Rightarrow> reported" where
  "health_status w = (if redirectorStatus w = active then integrated else separated)"

subsection \<open>The methods of AutopilotSystem\<close>

definition constructor :: system where
  "constructor =
     \<lparr> microserviceProcess = None,
       isMonitoring = False,
       pollInterval = None,
       consecutiveErrors = 0,
       maxConsecutiveErrors = 3,
       redirectorStatus = active,
       forceKillPending = 0,
       nextPid = 0,
       nextTimer = 0,
       trace = [Log Initialized, Log (LoadThresholdIs LOAD_THRESHOLD),
                Log (PollIntervalIs POLL_INTERVAL)] \<rparr>"

text \<open>The \<^verbatim>\<open>exit\<close> handler that \<^verbatim>\<open>startMicroservice\<close> registers on the child.\<close>

definition exitHandler :: "system \<Rightarrow> system" where
  "exitHandler w = (log MicroserviceExited w)\<lparr>microserviceProcess := None\<rparr>"

text \<open>
  \<^verbatim>\<open>this.microserviceProcess.kill(sig)\<close>. The event \<open>KillSignal p sig\<close> records the
  call; when the call throws, no signal was delivered to the process.
\<close>

definition kill :: "kill_result \<Rightarrow> signal \<Rightarrow> system \<Rightarrow> outcome" where
  "kill k sig w =
     (case microserviceProcess w of
        None \<Rightarrow> Threw NullHandle w
      | Some p \<Rightarrow>
          (case k of
             KillOk \<Rightarrow> Returned (emit (KillSignal p sig) w)
           | KillThrows \<Rightarrow> Threw KillFailed (emit (KillSignal p sig) w)))"

text \<open>\<^verbatim>\<open>sleep(ms)\<close>; the worker may exit while the supervisor waits.\<close>

definition sleep :: "nat \<Rightarrow> bool \<Rightarrow> system \<Rightarrow> system" where
  "sleep ms exits w =
     (let w1 = emit (SetTimeout ms) w in if exits then exitHandler w1 else w1)"

definition startMicroservice :: "spawn_result \<Rightarrow> system \<Rightarrow> outcome" where
  "startMicroservice sp w =
     (let w1 = log Spawning w;
          p = nextPid w1;
          w2 = emit (SpawnProcess p) (w1\<lparr>microserviceProcess := Some p, nextPid := Suc p\<rparr>);
          w3 = emit (SetTimeout 1000) w2
      in case sp of
           ErrorEvent \<Rightarrow>
             Threw SpawnFailed
               ((log (FailedToStartMicroservice SpawnFailed) w3)\<lparr>microserviceProcess := None\<rparr>)
         | _ \<Rightarrow>
             (let w4 = (if sp = ExitsEarly then exitHandler w3 else w3)
              in if microserviceProcess w4 \<noteq> None
                 then Returned (log ProcessStarted w4)
                 else Threw FailedToStart w4))"

definition stopMicroservice :: "kill_result \<Rightarrow> system \<Rightarrow> system" where
  "stopMicroservice k w =
     (if microserviceProcess w = None then log NoProcessToStop w
      else
        (let w1 = log Terminating w;
             w2 = (case kill k SIGTERM w1 of
                     Returned w' \<Rightarrow>
                       emit (SetTimeout 5000) (w'\<lparr>forceKillPending := Suc (forceKillPending w')\<rparr>)
                   | Threw e w' \<Rightarrow> log (ErrorStopping e) w')
         in log MicroserviceStopped (w2\<lparr>microserviceProcess := None\<rparr>)))"

text \<open>The callback of the 5000 ms timer set in \<^verbatim>\<open>stopMicroservice\<close>.\<close>

definition forceKillCallback :: "kill_result \<Rightarrow> system \<Rightarrow> outcome" where
  "forceKillCallback k w =
     (if microserviceProcess w \<noteq> None
      then kill k SIGKILL (log ForceKilling w)
      else Returned w)"

definition setMonolithRedirectorStatus :: "post_result \<Rightarrow> status \<Rightarrow> system \<Rightarrow> outcome" where
  "setMonolithRedirectorStatus po st w =
     (let w1 = emit (HttpPostStatus st) (log (SettingStatus st) w)
      in case po of
           PostOk \<Rightarrow> Returned (log (StatusUpdated st) (set_redirector_status st w1))
         | PostFailed \<Rightarrow> Threw RequestFailed (log (FailedToSetStatus RequestFailed) w1))"

definition makeScalingDecision :: "env \<Rightarrow> int \<Rightarrow> reported \<Rightarrow> system \<Rightarrow> system" where
  "makeScalingDecision e currentLoad currentStatus w =
     (let isMicroserviceRunning = (microserviceProcess w \<noteq> None) in
      if currentLoad > LOAD_THRESHOLD \<and> \<not> isMicroserviceRunning then
        (case andThen (startMicroservice (spawned e)
                        (log ScalingUp (log (HighLoadDetected currentLoad) w)))
                (\<lambda>w1. setMonolithRedirectorStatus (statusPost e) inactive
                        (sleep 2000 (workerExits e) w1)) of
           Returned w2 \<Rightarrow> log ScaleUpCompleted w2
         | Threw err w2 \<Rightarrow> log (ScaleUpFailed err) w2)
      else if currentLoad \<le> LOAD_THRESHOLD \<and> isMicroserviceRunning then
        (case andThen (setMonolithRedirectorStatus (statusPost e) active
                        (log ScalingDown (log (LowLoadDetected currentLoad) w)))
                (\<lambda>w1. Returned (stopMicroservice (killed e)
                                  (sleep 1000 (workerExits e) w1))) of
           Returned w2 \<Rightarrow> log ScaleDownCompleted w2
         | Threw err w2 \<Rightarrow> log (ScaleDownFailed err) w2)
      else log (LoadWithinRange currentLoad isMicroserviceRunning) w)"

definition stop :: "kill_result \<Rightarrow> system \<Rightarrow> system" where
  "stop k w =
     (let w1 = (log StoppingMonitoring w)\<lparr>isMonitoring := False\<rparr>;
          w2 = (case pollInterval w1 of
                  Some t \<Rightarrow> (emit (ClearInterval t) w1)\<lparr>pollInterval := None\<rparr>
                | None \<Rightarrow> w1)
      in if microserviceProcess w2 \<noteq> None then stopMicroservice k w2 else w2)"

definition checkLoadAndScale :: "env \<Rightarrow> system \<Rightarrow> system" where
  "checkLoadAndScale e w =
     (let w1 = emit HttpGetHealth w in
      case healthGet e of
        GetOk currentLoad \<Rightarrow>
          (let currentStatus = health_status w1;
               w2 = (log (CurrentLoad currentLoad currentStatus) w1)\<lparr>consecutiveErrors := 0\<rparr>
           in makeScalingDecision e currentLoad currentStatus w2)
      | GetFailed \<Rightarrow>
          (let w2 = w1\<lparr>consecutiveErrors := Suc (consecutiveErrors w1)\<rparr>;
               w3 = log (HealthCheckFailed (consecutiveErrors w2) (maxConsecutiveErrors w2)) w2
           in if consecutiveErrors w3 \<ge> maxConsecutiveErrors w3
              then stop (killed e) (log TooManyErrors w3)
              else w3))"

definition start :: "env \<Rightarrow> system \<Rightarrow> system" where
  "start e w =
     (if isMonitoring w then log AlreadyRunning w
      else
        (let w1 = (log StartingMonitoring w)\<lparr>isMonitoring := True, consecutiveErrors := 0\<rparr>;
             t = nextTimer w1;
             w2 = emit (SetInterval t POLL_INTERVAL) (w1\<lparr>pollInterval := Some t, nextTimer := Suc t\<rparr>)
         in checkLoadAndScale e w2))"

record status_report =
  rep_isMonitoring :: bool
  rep_microserviceRunning :: bool
  rep_consecutiveErrors :: nat
  rep_config :: "int \<times> nat"

definition getStatus :: "system \<Rightarrow> status_report" where
  "getStatus w =
     \<lparr> rep_isMonitoring = isMonitoring w,
       rep_microserviceRunning = (microserviceProcess w \<noteq> None),
       rep_consecutiveErrors = consecutiveErrors w,
       rep_config = (LOAD_THRESHOLD, POLL_INTERVAL) \<rparr>"

subsection \<open>Runs of the supervisor\<close>

text \<open>
  What can happen to the supervisor, one step at a time: a call of \<^verbatim>\<open>start\<close> or
  \<^verbatim>\<open>stop\<close>, the interval timer firing (only while it is set), a child process exiting
  (only once one was spawned), and a 5000 ms force-kill timer firing (only while one is
  pending). An exception that escapes the timer callback reaches the
  \<^verbatim>\<open>uncaughtException\<close> handler, which calls \<^verbatim>\<open>stop\<close>. A run is one of the
  schedules in which each tick ends before the next step begins; it is used to build
  concrete scenarios, and the schedules in which a step falls between two
  \<^verbatim>\<open>await\<close> points of a tick are not among the runs.
\<close>

datatype action =
    Start env
  | Stop kill_result
  | Tick env
  | WorkerExit
  | ForceKillTimer kill_result

definition step :: "action \<Rightarrow> system \<Rightarrow> system" where
  "step a w =
     (case a of
        Start e \<Rightarrow> start e w
      | Stop k \<Rightarrow> stop k w
      | Tick e \<Rightarrow> (if pollInterval w = None then w else checkLoadAndScale e w)
      | WorkerExit \<Rightarrow> (if nextPid w = 0 then w else exitHandler w)
      | ForceKillTimer k \<Rightarrow>
          (if forceKillPending w = 0 then w
           else (case forceKillCallback k (w\<lparr>forceKillPending := forceKillPending w - 1\<rparr>) of
                   Returned w' \<Rightarrow> w'
                 | Threw err w' \<Rightarrow> stop k w')))"

fun run :: "action list \<Rightarrow> system \<Rightarrow> system" where
  "run [] w = w"
| "run (a # as) w = run as (step a w)"

subsection \<open>Reading a trace\<close>

text \<open>
  \<^verbatim>\<open>makeScalingDecision\<close> returns nothing; which of its three branches ran is read off
  the lines it logs. The scale-up branch is the only one that logs \<open>ScalingUp\<close>, the
  scale-down branch the only one that logs \<open>ScalingDown\<close>.
\<close>

datatype decision = ScaleUp | ScaleDown | NoAction

definition observedDecision :: "event list \<Rightarrow> decision" where
  "observedDecision evs =
     (if Log ScalingUp \<in> set evs then ScaleUp
      else if Log ScalingDown \<in> set evs then ScaleDown
      else NoAction)"

text \<open>
  Every call of \<^verbatim>\<open>stopMicroservice\<close> begins with one of two log lines, so these two
  lines mark the call in a trace. \<open>killSent\<close> holds when a signal was sent to any process.
\<close>

definition stopCalled :: "event list \<Rightarrow> bool" where
  "stopCalled evs = (Log NoProcessToStop \<in> set evs \<or> Log Terminating \<in> set evs)"

definition killSent :: "event list \<Rightarrow> bool" where
  "killSent evs = (\<exists>ev \<in> set evs. case ev of KillSignal p s \<Rightarrow> True | _ \<Rightarrow> False)"

text \<open>
  The monolith hands redirects to the worker (status \<open>inactive\<close>) only while the
  supervisor holds a worker handle.
\<close>

definition flagHasWorker :: "system \<Rightarrow> bool" where
  "flagHasWorker w = (redirectorStatus w = inactive \<longrightarrow> microserviceProcess w \<noteq> None)"


subsection \<open>Sample answers of the outside world\<close>

text \<open>
  High load and everything works; high load and the status POST fails; low load and
  everything works; low load and the status POST fails; the health query fails.
\<close>

definition envUp :: env where
  "envUp = \<lparr> healthGet = GetOk 25, spawned = StaysUp, workerExits = False,
             statusPost = PostOk, killed = KillOk \<rparr>"

definition envPostFails :: env where
  "envPostFails = \<lparr> healthGet = GetOk 25, spawned = StaysUp, workerExits = False,
                    statusPost = PostFailed, killed = KillOk \<rparr>"

definition envDown :: env where
  "envDown = \<lparr> healthGet = GetOk 5, spawned = StaysUp, workerExits = False,
               statusPost = PostOk, killed = KillOk \<rparr>"

definition envDownPostFails :: env where
  "envDownPostFails = \<lparr> healthGet = GetOk 5, spawned = StaysUp, workerExits = False,
                        statusPost = PostFailed, killed = KillOk \<rparr>"

definition envQueryFails :: env where
  "envQueryFails = \<lparr> healthGet = GetFailed, spawned = StaysUp, workerExits = False,
                     statusPost = PostOk, killed = KillOk \<rparr>"


section \<open>Properties\<close>

subsection \<open>Logging leaves the fields alone\<close>

lemma emit_sel [simp]:
  "microserviceProcess (emit ev w) = microserviceProcess w"
  "isMonitoring (emit ev w) = isMonitoring w"
  "pollInterval (emit ev w) = pollInterval w"
  "consecutiveErrors (emit ev w) = consecutiveErrors w"
  "maxConsecutiveErrors (emit ev w) = maxConsecutiveErrors w"
  "redirectorStatus (emit ev w) = redirectorStatus w"
  "forceKillPending (emit ev w) = forceKillPending w"
  "nextPid (emit ev w) = nextPid w"
  "nextTimer (emit ev w) = nextTimer w"
  "trace (emit ev w) = trace w @ [ev]"
  by (simp_all add: emit_def)

lemma log_sel [simp]:
  "microserviceProcess (log m w) = microserviceProcess w"
  "isMonitoring (log m w) = isMonitoring w"
  "pollInterval (log m w) = pollInterval w"
  "consecutiveErrors (log m w) = consecutiveErrors w"
  "maxConsecutiveErrors (log m w) = maxConsecutiveErrors w"
  "redirectorStatus (log m w) = redirectorStatus w"
  "forceKillPending (log m w) = forceKillPending w"
  "nextPid (log m w) = nextPid w"
  "nextTimer (log m w) = nextTimer w"
  "trace (log m w) = trace w @ [Log m]"
  by (simp_all add: log_def)

lemmas handoff_defs = makeScalingDecision_def startMicroservice_def stopMicroservice_def
  setMonolithRedirectorStatus_def sleep_def kill_def exitHandler_def andThen_def
  set_redirector_status_def Let_def

lemmas run_defs = step_def start_def checkLoadAndScale_def forceKillCallback_def
  constructor_def LOAD_THRESHOLD_def

subsection \<open>The three branches of makeScalingDecision\<close>

lemma observed_decision:
  "observedDecision (newEvents w (makeScalingDecision e rate st w)) =
     (if rate > LOAD_THRESHOLD \<and> microserviceProcess w = None then ScaleUp
      else if rate \<le> LOAD_THRESHOLD \<and> microserviceProcess w \<noteq> None then ScaleDown
      else NoAction)"
  by (cases "spawned e"; cases "statusPost e"; cases "killed e"; cases "workerExits e";
      cases "microserviceProcess w")
     (simp_all add: handoff_defs newEvents_def observedDecision_def)

lemma spawn_iff_scale_up:
  "(SpawnProcess (nextPid w) \<in> set (newEvents w (makeScalingDecision e rate st w))) =
     (rate > LOAD_THRESHOLD \<and> microserviceProcess w = None)"
  by (cases "spawned e"; cases "statusPost e"; cases "killed e"; cases "workerExits e";
      cases "microserviceProcess w")
     (simp_all add: handoff_defs newEvents_def)

lemma reactivate_iff_scale_down:
  "(HttpPostStatus active \<in> set (newEvents w (makeScalingDecision e rate st w))) =
     (rate \<le> LOAD_THRESHOLD \<and> microserviceProcess w \<noteq> None)"
  by (cases "spawned e"; cases "statusPost e"; cases "killed e"; cases "workerExits e";
      cases "microserviceProcess w")
     (simp_all add: handoff_defs newEvents_def)

lemma no_action_only_logs:
  "\<not> (rate > LOAD_THRESHOLD \<and> microserviceProcess w = None) \<Longrightarrow>
   \<not> (rate \<le> LOAD_THRESHOLD \<and> microserviceProcess w \<noteq> None) \<Longrightarrow>
   makeScalingDecision e rate st w = log (LoadWithinRange rate (microserviceProcess w \<noteq> None)) w"
  by (cases "microserviceProcess w") (simp_all add: makeScalingDecision_def Let_def)

lemma makeScalingDecision_frame:
  "consecutiveErrors (makeScalingDecision e rate st w) = consecutiveErrors w"
  "maxConsecutiveErrors (makeScalingDecision e rate st w) = maxConsecutiveErrors w"
  "isMonitoring (makeScalingDecision e rate st w) = isMonitoring w"
  "pollInterval (makeScalingDecision e rate st w) = pollInterval w"
  by (cases "spawned e"; cases "statusPost e"; cases "killed e"; cases "workerExits e";
      cases "microserviceProcess w";
      simp add: handoff_defs)+

lemma stopMicroservice_frame:
  "microserviceProcess (stopMicroservice k w) = None"
  "consecutiveErrors (stopMicroservice k w) = consecutiveErrors w"
  "maxConsecutiveErrors (stopMicroservice k w) = maxConsecutiveErrors w"
  "isMonitoring (stopMicroservice k w) = isMonitoring w"
  "pollInterval (stopMicroservice k w) = pollInterval w"
  "redirectorStatus (stopMicroservice k w) = redirectorStatus w"
  by (cases k; cases "microserviceProcess w"; simp add: stopMicroservice_def kill_def Let_def)+

lemma stop_frame:
  "\<not> isMonitoring (stop k w)"
  "pollInterval (stop k w) = None"
  "microserviceProcess (stop k w) = None"
  "consecutiveErrors (stop k w) = consecutiveErrors w"
  "maxConsecutiveErrors (stop k w) = maxConsecutiveErrors w"
  by (cases "pollInterval w"; cases "microserviceProcess w";
      simp add: stop_def Let_def stopMicroservice_frame)+

lemma stop_trace:
  "trace (stop k w) =
     trace w @ [Log StoppingMonitoring]
       @ (case pollInterval w of Some t \<Rightarrow> [ClearInterval t] | None \<Rightarrow> [])
       @ (case microserviceProcess w of
            None \<Rightarrow> []
          | Some p \<Rightarrow>
              [Log Terminating, KillSignal p SIGTERM]
                @ (case k of KillOk \<Rightarrow> [SetTimeout 5000]
                   | KillThrows \<Rightarrow> [Log (ErrorStopping KillFailed)])
                @ [Log MicroserviceStopped])"
  by (cases k; cases "pollInterval w"; cases "microserviceProcess w")
     (simp_all add: stop_def stopMicroservice_def kill_def Let_def)

lemma started_worker:
  "microserviceProcess (run [Start envUp] constructor) = Some 0"
  "maxConsecutiveErrors (run [Start envUp] constructor) = 3"
  "isMonitoring (run [Start envUp] constructor)"
  "redirectorStatus (run [Start envUp] constructor) = inactive"
  by (simp_all add: run_defs envUp_def handoff_defs)

lemma started_worker_more:
  "pollInterval (run [Start envUp] constructor) = Some 0"
  "consecutiveErrors (run [Start envUp] constructor) = 0"
  "forceKillPending (run [Start envUp] constructor) = 0"
  "Log MicroserviceExited \<notin> set (trace (run [Start envUp] constructor))"
  by (simp_all add: run_defs envUp_def handoff_defs)

text \<open>
  C1. For every load, reported status and worker handle: the scale-up branch runs exactly
  when the load is above the threshold and there is no worker, and it is the branch that
  spawns a process; the scale-down branch runs exactly when the load is at most the
  threshold and there is a worker, and it is the branch that posts \<open>active\<close>; in every
  other case the call only logs that the load is within range. At the threshold itself
  with no worker nothing is started.
\<close>

theorem scaling_decision_table:
  "observedDecision (newEvents w (makeScalingDecision e rate st w)) =
     (if rate > LOAD_THRESHOLD \<and> microserviceProcess w = None then ScaleUp
      else if rate \<le> LOAD_THRESHOLD \<and> microserviceProcess w \<noteq> None then ScaleDown
      else NoAction)
   \<and> ((SpawnProcess (nextPid w) \<in> set (newEvents w (makeScalingDecision e rate st w))) =
        (rate > LOAD_THRESHOLD \<and> microserviceProcess w = None))
   \<and> ((HttpPostStatus active \<in> set (newEvents w (makeScalingDecision e rate st w))) =
        (rate \<le> LOAD_THRESHOLD \<and> microserviceProcess w \<noteq> None))
   \<and> (\<not> (rate > LOAD_THRESHOLD \<and> microserviceProcess w = None) \<and>
       \<not> (rate \<le> LOAD_THRESHOLD \<and> microserviceProcess w \<noteq> None) \<longrightarrow>
        makeScalingDecision e rate st w =
          log (LoadWithinRange rate (microserviceProcess w \<noteq> None)) w)
   \<and> (microserviceProcess w = None \<longrightarrow>
        observedDecision (newEvents w (makeScalingDecision e LOAD_THRESHOLD st w)) = NoAction)"
  using no_action_only_logs [of rate w e st]
  by (simp add: observed_decision spawn_iff_scale_up reactivate_iff_scale_down)

text \<open>
  C1 on the freshly constructed supervisor (no worker): load 20 gives no action, load 21
  scales up; with the worker of a completed scale-up, load 20 scales down and load 21
  gives no action.
\<close>

theorem scaling_decision_table_witness:
  "microserviceProcess constructor = None
   \<and> observedDecision (newEvents constructor
        (makeScalingDecision envUp 20 integrated constructor)) = NoAction
   \<and> observedDecision (newEvents constructor
        (makeScalingDecision envUp 21 integrated constructor)) = ScaleUp
   \<and> observedDecision (newEvents (run [Start envUp] constructor)
        (makeScalingDecision envUp 20 separated (run [Start envUp] constructor))) = ScaleDown
   \<and> observedDecision (newEvents (run [Start envUp] constructor)
        (makeScalingDecision envUp 21 separated (run [Start envUp] constructor))) = NoAction"
proof -
  have idle: "microserviceProcess constructor = None"
    by (simp add: constructor_def)
  show ?thesis
    using scaling_decision_table [of constructor envUp 20 integrated, THEN conjunct1]
      scaling_decision_table [of constructor envUp 21 integrated, THEN conjunct1]
      scaling_decision_table [of "run [Start envUp] constructor" envUp 20 separated,
        THEN conjunct1]
      scaling_decision_table [of "run [Start envUp] constructor" envUp 21 separated,
        THEN conjunct1]
      idle started_worker(1)
    by (simp add: LOAD_THRESHOLD_def)
qed

subsection \<open>A failed status POST during scale-up\<close>




subsection \<open>The monolith's flag and the worker handle\<close>

text \<open>
  C3, as the specification states it, fails: after a completed scale-up the worker exits
  by itself; the exit handler clears the handle and nothing resets the monolith's status,
  which stays \<open>inactive\<close> with no worker.
\<close>

theorem separated_without_worker_counterexample:
  "\<not> flagHasWorker (run [Start envUp, WorkerExit] constructor)"
  by (simp add: run_defs envUp_def handoff_defs flagHasWorker_def)

lemma makeScalingDecision_keeps_flagHasWorker:
  "\<not> workerExits e \<Longrightarrow> flagHasWorker w \<Longrightarrow> flagHasWorker (makeScalingDecision e rate st w)"
  by (cases "spawned e"; cases "statusPost e"; cases "killed e"; cases "microserviceProcess w")
     (simp_all add: handoff_defs flagHasWorker_def)

lemma checkLoadAndScale_keeps_flagHasWorker:
  assumes "\<not> workerExits e"
    and "healthGet e = GetFailed \<longrightarrow> Suc (consecutiveErrors w) < maxConsecutiveErrors w"
    and "flagHasWorker w"
  shows "flagHasWorker (checkLoadAndScale e w)"
proof (cases "healthGet e")
  case GetFailed
  with assms show ?thesis
    by (simp add: checkLoadAndScale_def Let_def flagHasWorker_def)
next
  case (GetOk rate)
  have "flagHasWorker ((log (CurrentLoad rate (health_status (emit HttpGetHealth w)))
          (emit HttpGetHealth w))\<lparr>consecutiveErrors := 0\<rparr>)"
    using assms(3) by (simp add: flagHasWorker_def)
  with assms(1) GetOk show ?thesis
    by (simp add: checkLoadAndScale_def Let_def makeScalingDecision_keeps_flagHasWorker)
qed

lemma failed_query_posts_nothing:
  "healthGet e = GetFailed \<Longrightarrow>
   HttpPostStatus st \<notin> set (newEvents w (checkLoadAndScale e w))"
  by (cases "killed e"; cases "pollInterval w"; cases "microserviceProcess w")
     (simp_all add: checkLoadAndScale_def Let_def stop_trace newEvents_def)

lemma deactivate_after_process_started:
  assumes "HttpPostStatus inactive \<in> set (newEvents w (checkLoadAndScale e w))"
  shows "Log ProcessStarted \<in> set (takeWhile (\<lambda>ev. ev \<noteq> HttpPostStatus inactive)
           (newEvents w (checkLoadAndScale e w)))
         \<and> SpawnProcess (nextPid w) \<in> set (takeWhile (\<lambda>ev. ev \<noteq> HttpPostStatus inactive)
           (newEvents w (checkLoadAndScale e w)))"
proof (cases "healthGet e")
  case GetFailed
  with assms failed_query_posts_nothing [of e inactive w] show ?thesis by simp
next
  case (GetOk rate)
  with assms show ?thesis
    by (cases "spawned e"; cases "statusPost e"; cases "killed e"; cases "workerExits e";
        cases "microserviceProcess w")
       (simp_all add: checkLoadAndScale_def handoff_defs newEvents_def split: if_splits)
qed

lemma activate_before_stop_call:
  assumes "healthGet e = GetOk rate"
  shows "\<not> stopCalled (takeWhile (\<lambda>ev. ev \<noteq> Log (StatusUpdated active))
           (newEvents w (checkLoadAndScale e w)))"
  using assms
  by (cases "spawned e"; cases "statusPost e"; cases "killed e"; cases "workerExits e";
      cases "microserviceProcess w")
     (simp_all add: checkLoadAndScale_def handoff_defs newEvents_def stopCalled_def)

lemma scale_down_tick:
  assumes "healthGet e = GetOk rate" and "rate \<le> LOAD_THRESHOLD"
    and "microserviceProcess w = Some p" and "statusPost e = PostOk"
  shows "redirectorStatus (checkLoadAndScale e w) = active"
    and "microserviceProcess (checkLoadAndScale e w) = None"
  using assms
  by (cases "killed e"; cases "workerExits e";
      simp add: checkLoadAndScale_def handoff_defs)+


text \<open>
  C3, amended. One tick that runs alone, during which the worker does not exit by
  itself and a failed health query does not reach the consecutive-error limit, never
  produces the state "status \<open>inactive\<close>, no worker handle": if the state before the tick
  is not of that kind, the state after it is not either. In any tick that runs alone
  the POST of \<open>inactive\<close> comes only after the process was spawned and reported started,
  and, when its health query succeeds, no line of \<^verbatim>\<open>stopMicroservice\<close> comes before
  the line that reports the POST of \<open>active\<close> as done. Nothing is said of the states between ticks: an
  exit of the worker, a call of \<^verbatim>\<open>stop\<close>, the fatal stop, or a second tick that
  overlaps a handoff leave the status \<open>inactive\<close> with no worker handle.
\<close>

theorem lone_tick_keeps_flag_with_worker:
  "(\<not> workerExits e \<and>
    (healthGet e = GetFailed \<longrightarrow> Suc (consecutiveErrors w) < maxConsecutiveErrors w) \<and>
    flagHasWorker w \<longrightarrow> flagHasWorker (checkLoadAndScale e w))
   \<and> (HttpPostStatus inactive \<in> set (newEvents w (checkLoadAndScale e w)) \<longrightarrow>
        Log ProcessStarted \<in> set (takeWhile (\<lambda>ev. ev \<noteq> HttpPostStatus inactive)
          (newEvents w (checkLoadAndScale e w)))
        \<and> SpawnProcess (nextPid w) \<in> set (takeWhile (\<lambda>ev. ev \<noteq> HttpPostStatus inactive)
          (newEvents w (checkLoadAndScale e w))))
   \<and> (healthGet e = GetOk rate \<longrightarrow>
        \<not> stopCalled (takeWhile (\<lambda>ev. ev \<noteq> Log (StatusUpdated active))
          (newEvents w (checkLoadAndScale e w))))"
  using checkLoadAndScale_keeps_flagHasWorker [of e w]
    deactivate_after_process_started [of w e] activate_before_stop_call [of e rate w]
  by blast

text \<open>
  C3, amended, on two ticks: the scale-up of the constructed supervisor ends with status
  \<open>inactive\<close> and worker 0; the scale-down that follows ends with status \<open>active\<close>
  and no worker.
\<close>

theorem lone_tick_keeps_flag_with_worker_witness:
  "\<not> workerExits envUp \<and> healthGet envUp = GetOk 25 \<and> flagHasWorker constructor
   \<and> flagHasWorker (checkLoadAndScale envUp constructor)
   \<and> redirectorStatus (checkLoadAndScale envUp constructor) = inactive
   \<and> microserviceProcess (checkLoadAndScale envUp constructor) = Some 0
   \<and> HttpPostStatus inactive \<in> set (newEvents constructor (checkLoadAndScale envUp constructor))
   \<and> Log ProcessStarted \<in> set (takeWhile (\<lambda>ev. ev \<noteq> HttpPostStatus inactive)
        (newEvents constructor (checkLoadAndScale envUp constructor)))
   \<and> \<not> workerExits envDown \<and> healthGet envDown = GetOk 5
   \<and> flagHasWorker (checkLoadAndScale envDown (checkLoadAndScale envUp constructor))
   \<and> redirectorStatus (checkLoadAndScale envDown (checkLoadAndScale envUp constructor)) = active"
proof -
  have up: "redirectorStatus (checkLoadAndScale envUp constructor) = inactive"
    "microserviceProcess (checkLoadAndScale envUp constructor) = Some 0"
    "HttpPostStatus inactive \<in> set (newEvents constructor (checkLoadAndScale envUp constructor))"
    by (simp_all add: checkLoadAndScale_def constructor_def LOAD_THRESHOLD_def envUp_def
          handoff_defs newEvents_def)
  have down:
    "redirectorStatus (checkLoadAndScale envDown (checkLoadAndScale envUp constructor)) = active"
    by (rule scale_down_tick [where rate = 5 and p = 0])
       (simp_all add: up(2) envDown_def LOAD_THRESHOLD_def)
  have idle: "flagHasWorker constructor"
    by (simp add: flagHasWorker_def constructor_def)
  have env: "\<not> workerExits envUp" "healthGet envUp = GetOk 25"
    "\<not> workerExits envDown" "healthGet envDown = GetOk 5"
    by (simp_all add: envUp_def envDown_def)
  show ?thesis
    using lone_tick_keeps_flag_with_worker [of envUp constructor 25]
      lone_tick_keeps_flag_with_worker [of envDown "checkLoadAndScale envUp constructor" 5]
      up down idle env
    by simp
qed

subsection \<open>The force-kill timer of stopMicroservice\<close>

lemma forceKillCallback_after_stop:
  "forceKillCallback k' (stopMicroservice k w) = Returned (stopMicroservice k w)"
  by (simp add: forceKillCallback_def stopMicroservice_frame)

text \<open>
  C4 does not hold of the code. The supervisor scales up (worker 0), then scales down:
  \<^verbatim>\<open>stopMicroservice\<close> sends SIGTERM to worker 0, sets the 5000 ms timer and clears the
  handle at once. The worker does not exit. When the timer fires, its callback finds the
  handle null and sends nothing: SIGKILL never reaches worker 0.
\<close>

theorem force_kill_never_reaches_stopped_worker:
  "microserviceProcess (run [Start envUp] constructor) = Some 0
   \<and> KillSignal 0 SIGTERM \<in> set (trace (run [Start envUp, Tick envDown] constructor))
   \<and> forceKillPending (run [Start envUp, Tick envDown] constructor) = 1
   \<and> run [Start envUp, Tick envDown, ForceKillTimer KillOk] constructor =
       (run [Start envUp, Tick envDown] constructor)\<lparr>forceKillPending := 0\<rparr>
   \<and> KillSignal 0 SIGKILL \<notin>
       set (trace (run [Start envUp, Tick envDown, ForceKillTimer KillOk] constructor))"
  by (simp add: run_defs envUp_def envDown_def handoff_defs)

text \<open>
  The timer reads the handle when it fires, so a worker spawned within the 5000 ms
  (here after \<^verbatim>\<open>stop\<close> and a new \<^verbatim>\<open>start\<close>) is the one that gets SIGKILL.
\<close>

lemma force_kill_hits_next_worker:
  "KillSignal 1 SIGKILL \<in> set (trace
     (run [Start envUp, Stop KillOk, Start envUp, ForceKillTimer KillOk] constructor))
   \<and> KillSignal 0 SIGKILL \<notin> set (trace
     (run [Start envUp, Stop KillOk, Start envUp, ForceKillTimer KillOk] constructor))"
  by (simp add: run_defs stop_def envUp_def handoff_defs)

subsection \<open>Failed health queries\<close>













text \<open>
  The same holds of a worker that outlives SIGTERM: after the fatal stop the force-kill
  timer fires, finds the handle null and sends nothing.
\<close>

lemma fatal_stop_never_force_kills:
  "newEvents
     (fold checkLoadAndScale [envQueryFails, envQueryFails, envQueryFails]
        (run [Start envUp] constructor))
     (step (ForceKillTimer KillOk)
        (fold checkLoadAndScale [envQueryFails, envQueryFails, envQueryFails]
           (run [Start envUp] constructor))) = []
   \<and> forceKillPending (fold checkLoadAndScale [envQueryFails, envQueryFails, envQueryFails]
        (run [Start envUp] constructor)) = 1
   \<and> Log MicroserviceExited \<notin> set (trace
        (step (ForceKillTimer KillOk)
           (fold checkLoadAndScale [envQueryFails, envQueryFails, envQueryFails]
              (run [Start envUp] constructor))))"
  using started_worker started_worker_more
  by (simp add: checkLoadAndScale_def stop_def newEvents_def step_def forceKillCallback_def
        envQueryFails_def stopMicroservice_def kill_def Let_def
      del: run.simps)



subsection \<open>The order of the scale-down steps\<close>

lemma scale_down_post_ok:
  assumes "rate \<le> LOAD_THRESHOLD" and "microserviceProcess w \<noteq> None"
    and "statusPost e = PostOk"
  shows "HttpPostStatus active \<in> set (newEvents w (makeScalingDecision e rate st w))"
    and "Log (StatusUpdated active) \<in> set (newEvents w (makeScalingDecision e rate st w))"
    and "stopCalled (newEvents w (makeScalingDecision e rate st w))"
    and "takeWhile (\<lambda>ev. ev \<noteq> Log (StatusUpdated active))
           (newEvents w (makeScalingDecision e rate st w)) =
         [Log (LowLoadDetected rate), Log ScalingDown, Log (SettingStatus active),
          HttpPostStatus active]"
    and "redirectorStatus (makeScalingDecision e rate st w) = active"
    and "microserviceProcess (makeScalingDecision e rate st w) = None"
  using assms
  by (cases "killed e"; cases "workerExits e"; cases "microserviceProcess w";
      simp add: handoff_defs newEvents_def stopCalled_def)+

lemma scale_down_post_failed:
  assumes "rate \<le> LOAD_THRESHOLD" and "microserviceProcess w \<noteq> None"
    and "statusPost e = PostFailed"
  shows "HttpPostStatus active \<in> set (newEvents w (makeScalingDecision e rate st w))"
    and "\<not> stopCalled (newEvents w (makeScalingDecision e rate st w))"
    and "\<not> killSent (newEvents w (makeScalingDecision e rate st w))"
    and "microserviceProcess (makeScalingDecision e rate st w) = microserviceProcess w"
    and "redirectorStatus (makeScalingDecision e rate st w) = redirectorStatus w"
  using assms
  by (cases "microserviceProcess w";
      simp add: handoff_defs newEvents_def stopCalled_def killSent_def)+

text \<open>
  C6. In the scale-down branch (load at most the threshold, worker handle set): when the
  POST of \<open>active\<close> succeeds, the request and the line that reports its success come
  before any line of \<^verbatim>\<open>stopMicroservice\<close> and before any signal, the stop call follows,
  and the tick ends with status \<open>active\<close> and no handle; when the POST fails, no stop call
  is made and no signal is sent, handle and status are unchanged, and any later decision
  with a load at most the threshold takes the scale-down branch again and posts
  \<open>active\<close> again.
\<close>

theorem scale_down_switch_before_stop:
  assumes "rate \<le> LOAD_THRESHOLD" and "microserviceProcess w \<noteq> None"
  shows "(statusPost e = PostOk \<longrightarrow>
            HttpPostStatus active \<in> set (newEvents w (makeScalingDecision e rate st w))
          \<and> Log (StatusUpdated active) \<in> set (newEvents w (makeScalingDecision e rate st w))
          \<and> stopCalled (newEvents w (makeScalingDecision e rate st w))
          \<and> HttpPostStatus active \<in> set (takeWhile (\<lambda>ev. ev \<noteq> Log (StatusUpdated active))
                 (newEvents w (makeScalingDecision e rate st w)))
          \<and> \<not> stopCalled (takeWhile (\<lambda>ev. ev \<noteq> Log (StatusUpdated active))
                 (newEvents w (makeScalingDecision e rate st w)))
          \<and> \<not> killSent (takeWhile (\<lambda>ev. ev \<noteq> Log (StatusUpdated active))
                 (newEvents w (makeScalingDecision e rate st w)))
          \<and> redirectorStatus (makeScalingDecision e rate st w) = active
          \<and> microserviceProcess (makeScalingDecision e rate st w) = None)
       \<and> (statusPost e = PostFailed \<longrightarrow>
            HttpPostStatus active \<in> set (newEvents w (makeScalingDecision e rate st w))
          \<and> \<not> stopCalled (newEvents w (makeScalingDecision e rate st w))
          \<and> \<not> killSent (newEvents w (makeScalingDecision e rate st w))
          \<and> microserviceProcess (makeScalingDecision e rate st w) = microserviceProcess w
          \<and> redirectorStatus (makeScalingDecision e rate st w) = redirectorStatus w
          \<and> (\<forall>e' rate' st'. rate' \<le> LOAD_THRESHOLD \<longrightarrow>
                observedDecision (newEvents (makeScalingDecision e rate st w)
                  (makeScalingDecision e' rate' st' (makeScalingDecision e rate st w))) = ScaleDown
              \<and> HttpPostStatus active \<in> set (newEvents (makeScalingDecision e rate st w)
                  (makeScalingDecision e' rate' st' (makeScalingDecision e rate st w)))))"
proof (intro conjI impI)
  assume ok: "statusPost e = PostOk"
  note facts = scale_down_post_ok [OF assms ok, of st]
  show "HttpPostStatus active \<in> set (newEvents w (makeScalingDecision e rate st w))"
    and "Log (StatusUpdated active) \<in> set (newEvents w (makeScalingDecision e rate st w))"
    and "stopCalled (newEvents w (makeScalingDecision e rate st w))"
    and "redirectorStatus (makeScalingDecision e rate st w) = active"
    and "microserviceProcess (makeScalingDecision e rate st w) = None"
    by (rule facts)+
  show "HttpPostStatus active \<in> set (takeWhile (\<lambda>ev. ev \<noteq> Log (StatusUpdated active))
          (newEvents w (makeScalingDecision e rate st w)))"
    by (simp add: facts(4))
  show "\<not> stopCalled (takeWhile (\<lambda>ev. ev \<noteq> Log (StatusUpdated active))
          (newEvents w (makeScalingDecision e rate st w)))"
    by (simp add: facts(4) stopCalled_def)
  show "\<not> killSent (takeWhile (\<lambda>ev. ev \<noteq> Log (StatusUpdated active))
          (newEvents w (makeScalingDecision e rate st w)))"
    by (simp add: facts(4) killSent_def)
next
  assume failed: "statusPost e = PostFailed"
  note facts = scale_down_post_failed [OF assms failed, of st]
  show "HttpPostStatus active \<in> set (newEvents w (makeScalingDecision e rate st w))"
    and "\<not> stopCalled (newEvents w (makeScalingDecision e rate st w))"
    and "\<not> killSent (newEvents w (makeScalingDecision e rate st w))"
    and "microserviceProcess (makeScalingDecision e rate st w) = microserviceProcess w"
    and "redirectorStatus (makeScalingDecision e rate st w) = redirectorStatus w"
    by (rule facts)+
  show "\<forall>e' rate' st'. rate' \<le> LOAD_THRESHOLD \<longrightarrow>
          observedDecision (newEvents (makeScalingDecision e rate st w)
            (makeScalingDecision e' rate' st' (makeScalingDecision e rate st w))) = ScaleDown
        \<and> HttpPostStatus active \<in> set (newEvents (makeScalingDecision e rate st w)
            (makeScalingDecision e' rate' st' (makeScalingDecision e rate st w)))"
    using assms(2) by (simp add: observed_decision reactivate_iff_scale_down facts(4))
qed

text \<open>
  C6 with worker 0 running and load 5: with a working POST the tick ends with status
  \<open>active\<close> and the worker stopped; with a failing POST the worker handle is kept.
\<close>

theorem scale_down_switch_before_stop_witness:
  "5 \<le> LOAD_THRESHOLD \<and> microserviceProcess (run [Start envUp] constructor) \<noteq> None
   \<and> statusPost envDown = PostOk \<and> statusPost envDownPostFails = PostFailed
   \<and> redirectorStatus (run [Start envUp] constructor) = inactive
   \<and> redirectorStatus
       (makeScalingDecision envDown 5 separated (run [Start envUp] constructor)) = active
   \<and> microserviceProcess
       (makeScalingDecision envDown 5 separated (run [Start envUp] constructor)) = None
   \<and> microserviceProcess
       (makeScalingDecision envDownPostFails 5 separated (run [Start envUp] constructor)) = Some 0
   \<and> redirectorStatus
       (makeScalingDecision envDownPostFails 5 separated (run [Start envUp] constructor)) =
       inactive"
  using scale_down_switch_before_stop [of 5 "run [Start envUp] constructor" envDown separated]
    scale_down_switch_before_stop
      [of 5 "run [Start envUp] constructor" envDownPostFails separated]
    started_worker(1,4)
  by (simp add: envDown_def envDownPostFails_def LOAD_THRESHOLD_def)

subsection \<open>What consecutiveErrors counts\<close>

text \<open>
  C7. After a call of \<^verbatim>\<open>checkLoadAndScale\<close> whose health query succeeds,
  \<open>consecutiveErrors\<close> is 0, whatever happens to the spawn, the POST or the kill in that
  call; after one whose health query fails it is one more than before; and
  \<^verbatim>\<open>makeScalingDecision\<close> never changes it.
\<close>

theorem consecutive_errors_count_queries_only:
  "(healthGet e = GetOk rate \<longrightarrow> consecutiveErrors (checkLoadAndScale e w) = 0)
   \<and> (healthGet e = GetFailed \<longrightarrow>
        consecutiveErrors (checkLoadAndScale e w) = Suc (consecutiveErrors w))
   \<and> consecutiveErrors (makeScalingDecision e rate st w) = consecutiveErrors w"
  by (simp add: checkLoadAndScale_def Let_def makeScalingDecision_frame stop_frame)

text \<open>
  C7 with two errors counted: a successful query whose scale-up fails at the POST
  resets the count to 0; a failed query after one error makes it 2.
\<close>

theorem consecutive_errors_count_queries_only_witness:
  "healthGet envPostFails = GetOk 25 \<and> statusPost envPostFails = PostFailed
   \<and> healthGet envQueryFails = GetFailed
   \<and> consecutiveErrors
       (checkLoadAndScale envPostFails (constructor\<lparr>consecutiveErrors := 2\<rparr>)) = 0
   \<and> consecutiveErrors
       (checkLoadAndScale envQueryFails (constructor\<lparr>consecutiveErrors := 1\<rparr>)) = 2"
  using consecutive_errors_count_queries_only
      [of envPostFails 25 "constructor\<lparr>consecutiveErrors := 2\<rparr>"]
    consecutive_errors_count_queries_only
      [of envQueryFails 25 "constructor\<lparr>consecutiveErrors := 1\<rparr>"]
  by (simp add: envPostFails_def envQueryFails_def)

subsection \<open>Calls that do nothing\<close>

text \<open>
  C8. \<^verbatim>\<open>start\<close> on a supervisor that is already monitoring logs the warning and
  returns: apart from that one line the state is the same, so the interval, the worker
  handle and \<open>consecutiveErrors\<close> are unchanged, and no query is made.
\<close>

theorem start_while_monitoring_noop:
  assumes "isMonitoring w"
  shows "start e w = log AlreadyRunning w
       \<and> newEvents w (start e w) = [Log AlreadyRunning]
       \<and> (start e w)\<lparr>trace := trace w\<rparr> = w
       \<and> pollInterval (start e w) = pollInterval w
       \<and> microserviceProcess (start e w) = microserviceProcess w
       \<and> consecutiveErrors (start e w) = consecutiveErrors w
       \<and> isMonitoring (start e w)"
  using assms by (simp add: start_def newEvents_def log_def emit_def)

theorem start_while_monitoring_noop_witness:
  "isMonitoring (run [Start envUp] constructor)
   \<and> run [Start envUp, Start envQueryFails] constructor =
       log AlreadyRunning (run [Start envUp] constructor)"
  using start_while_monitoring_noop [of "run [Start envUp] constructor" envQueryFails]
    started_worker(3)
  by (simp add: step_def)

text \<open>
  C9. \<^verbatim>\<open>stopMicroservice\<close> with no worker handle logs that there is nothing to stop and
  returns: apart from that one line the state is the same, and no signal is sent.
\<close>

theorem stop_without_worker_noop:
  assumes "microserviceProcess w = None"
  shows "stopMicroservice k w = log NoProcessToStop w
       \<and> newEvents w (stopMicroservice k w) = [Log NoProcessToStop]
       \<and> (stopMicroservice k w)\<lparr>trace := trace w\<rparr> = w
       \<and> \<not> killSent (newEvents w (stopMicroservice k w))"
  using assms by (simp add: stopMicroservice_def newEvents_def killSent_def log_def emit_def)

theorem stop_without_worker_noop_witness:
  "microserviceProcess constructor = None
   \<and> stopMicroservice KillOk constructor = log NoProcessToStop constructor
   \<and> (stopMicroservice KillOk constructor)\<lparr>trace := trace constructor\<rparr> = constructor"
proof -
  have idle: "microserviceProcess constructor = None"
    by (simp add: constructor_def)
  show ?thesis
    using stop_without_worker_noop [of constructor KillOk] idle by simp
qed

subsection \<open>The handle after stopMicroservice\<close>

text \<open>
  C10. \<^verbatim>\<open>stopMicroservice\<close> always returns (the one call in it that can throw,
  \<^verbatim>\<open>kill\<close>, is caught) with the worker handle null, whether \<^verbatim>\<open>kill\<close> threw or not and
  without waiting for the process to exit; \<^verbatim>\<open>getStatus\<close> then reports no running
  microservice, and the next decision treats the worker as absent: it scales up when the
  load is above the threshold and does nothing otherwise.
\<close>

theorem stop_always_clears_handle:
  "microserviceProcess (stopMicroservice k w) = None
   \<and> \<not> rep_microserviceRunning (getStatus (stopMicroservice k w))
   \<and> observedDecision (newEvents (stopMicroservice k w)
        (makeScalingDecision e rate st (stopMicroservice k w))) =
       (if rate > LOAD_THRESHOLD then ScaleUp else NoAction)"
  by (simp add: stopMicroservice_frame getStatus_def observed_decision)

text \<open>
  C10 with worker 0 running and a \<^verbatim>\<open>kill\<close> that throws: the handle is null afterwards,
  and a load of 5 then leads to no action although the process was never signalled
  successfully.
\<close>

theorem stop_always_clears_handle_witness:
  "microserviceProcess (run [Start envUp] constructor) = Some 0
   \<and> kill KillThrows SIGTERM (log Terminating (run [Start envUp] constructor)) =
       Threw KillFailed
         (emit (KillSignal 0 SIGTERM) (log Terminating (run [Start envUp] constructor)))
   \<and> microserviceProcess (stopMicroservice KillThrows (run [Start envUp] constructor)) = None
   \<and> observedDecision (newEvents (stopMicroservice KillThrows (run [Start envUp] constructor))
        (makeScalingDecision envDown 5 separated
          (stopMicroservice KillThrows (run [Start envUp] constructor)))) = NoAction"
  using stop_always_clears_handle [of KillThrows "run [Start envUp] constructor" envDown 5 separated]
    started_worker(1)
  by (simp add: kill_def LOAD_THRESHOLD_def)

end
